theory Spec2Isabelle
  imports Main
begin

section \<open>Python values and dictionaries\<close>

text \<open>
  The resource methods handle untyped Python values: the annotations of the source
  (\<open>Optional[int]\<close>, \<open>Optional[str]\<close>, \<open>Any\<close>) are not enforced at run time, so every
  argument but an identifier is a \<open>pyval\<close>, and the test \<open>v is not None\<close> of the source is
  \<open>v \<noteq> PNone\<close>. A \<open>dict\<close> keeps its insertion order and has distinct keys: it is an
  association list, a dict literal is the list of its items in the order written, and a
  dict comprehension over \<open>d.items()\<close> with a condition is \<open>filter\<close>.
  Identifiers (\<open>id: str\<close>, \<open>webhook_id: str\<close>) are strings, so that the f-string
  \<open>f"/v1/webhooks/{id}"\<close> is concatenation.
\<close>

datatype pyval =
    PNone
  | PBool bool
  | PInt int
  | PStr string
  | PList "pyval list"
  | PDict "(string \<times> pyval) list"

type_synonym pydict = "(string \<times> pyval) list"

section \<open>The shared client\<close>

text \<open>
  \<open>workbench.client.WorkbenchClient\<close> is not part of the sources at hand; the resource
  classes only hold it as \<open>self._client\<close> and call its helpers \<open>get\<close>, \<open>post\<close>, \<open>put\<close> and
  \<open>delete\<close>. It is a parameter of every method here: a function from the helper
  invocation (which helper, the path, the \<open>params=\<close> and \<open>json=\<close> keyword arguments, \<open>None\<close>
  when the call site passes none) and the state of the world to an outcome and the
  new state of the world. The outcome is \<open>Inl e\<close> when the helper raises \<open>e\<close> and
  \<open>Inr v\<close> when it returns \<open>v\<close>.
\<close>

datatype verb = GET | POST | PUT | DELETE

record request =
  verb :: verb
  path :: string
  params :: "pydict option"
  json :: "pydict option"

type_synonym ('e, 'w) client = "request \<Rightarrow> 'w \<Rightarrow> ('e + pyval) \<times> 'w"

definition client_get ::
  "('e, 'w) client \<Rightarrow> string \<Rightarrow> pydict option \<Rightarrow> 'w \<Rightarrow> ('e + pyval) \<times> 'w" where
  "client_get c p ps = c \<lparr>verb = GET, path = p, params = ps, json = None\<rparr>"

definition client_post ::
  "('e, 'w) client \<Rightarrow> string \<Rightarrow> pydict option \<Rightarrow> 'w \<Rightarrow> ('e + pyval) \<times> 'w" where
  "client_post c p js = c \<lparr>verb = POST, path = p, params = None, json = js\<rparr>"

definition client_put ::
  "('e, 'w) client \<Rightarrow> string \<Rightarrow> pydict option \<Rightarrow> 'w \<Rightarrow> ('e + pyval) \<times> 'w" where
  "client_put c p js = c \<lparr>verb = PUT, path = p, params = None, json = js\<rparr>"

definition client_delete ::
  "('e, 'w) client \<Rightarrow> string \<Rightarrow> 'w \<Rightarrow> ('e + pyval) \<times> 'w" where
  "client_delete c p = c \<lparr>verb = DELETE, path = p, params = None, json = None\<rparr>"

text \<open>
  A method that calls a helper and returns nothing (\<open>delete\<close>): the helper's value is
  dropped and \<open>None\<close> returned; what the helper raises is raised.
\<close>

definition discard :: "('e + pyval) \<times> 'w \<Rightarrow> ('e + pyval) \<times> 'w" where
  "discard r = (case r of (Inl e, w) \<Rightarrow> (Inl e, w) | (Inr v, w) \<Rightarrow> (Inr PNone, w))"

section \<open>ServiceRequestsResource\<close>

definition service_requests_list_params ::
  "pyval \<Rightarrow> pyval \<Rightarrow> pyval \<Rightarrow> pyval \<Rightarrow> pyval \<Rightarrow> pyval \<Rightarrow> pyval \<Rightarrow> pyval \<Rightarrow> pydict" where
  "service_requests_list_params page per_page search sort_by order_by status priority client_id =
     [(''page'', page),
      (''per_page'', per_page),
      (''search'', search),
      (''sort'', sort_by),
      (''order'', order_by),
      (''status'', status),
      (''priority'', priority),
      (''client_id'', client_id)]"

definition service_requests_list ::
  "('e, 'w) client \<Rightarrow> pyval \<Rightarrow> pyval \<Rightarrow> pyval \<Rightarrow> pyval \<Rightarrow> pyval \<Rightarrow> pyval \<Rightarrow> pyval \<Rightarrow> pyval
     \<Rightarrow> 'w \<Rightarrow> ('e + pyval) \<times> 'w" where
  "service_requests_list c page per_page search sort_by order_by status priority client_id =
     client_get c ''/v1/service-requests''
       (Some (service_requests_list_params
                page per_page search sort_by order_by status priority client_id))"

definition service_requests_get ::
  "('e, 'w) client \<Rightarrow> string \<Rightarrow> 'w \<Rightarrow> ('e + pyval) \<times> 'w" where
  "service_requests_get c ident = client_get c (''/v1/service-requests/'' @ ident) None"

definition service_requests_create_data ::
  "pyval \<Rightarrow> pyval \<Rightarrow> pyval \<Rightarrow> pyval \<Rightarrow> pyval \<Rightarrow> pyval \<Rightarrow> pyval \<Rightarrow> pyval \<Rightarrow> pyval \<Rightarrow> pyval
     \<Rightarrow> pyval \<Rightarrow> pyval \<Rightarrow> pyval \<Rightarrow> pydict" where
  "service_requests_create_data title client_id description status source priority
       requested_date preferred_time address contact_name contact_email contact_phone notes =
     filter (\<lambda>(k, v). v \<noteq> PNone \<or> k = ''title'')
       [(''title'', title),
        (''client_id'', client_id),
        (''description'', description),
        (''status'', status),
        (''source'', source),
        (''priority'', priority),
        (''requested_date'', requested_date),
        (''preferred_time'', preferred_time),
        (''address'', address),
        (''contact_name'', contact_name),
        (''contact_email'', contact_email),
        (''contact_phone'', contact_phone),
        (''notes'', notes)]"

definition service_requests_create ::
  "('e, 'w) client \<Rightarrow> pyval \<Rightarrow> pyval \<Rightarrow> pyval \<Rightarrow> pyval \<Rightarrow> pyval \<Rightarrow> pyval \<Rightarrow> pyval \<Rightarrow> pyval
     \<Rightarrow> pyval \<Rightarrow> pyval \<Rightarrow> pyval \<Rightarrow> pyval \<Rightarrow> pyval \<Rightarrow> 'w \<Rightarrow> ('e + pyval) \<times> 'w" where
  "service_requests_create c title client_id description status source priority
       requested_date preferred_time address contact_name contact_email contact_phone notes =
     client_post c ''/v1/service-requests''
       (Some (service_requests_create_data title client_id description status source priority
                requested_date preferred_time address contact_name contact_email
                contact_phone notes))"

text \<open>
  \<open>update(self, id, **kwargs)\<close>: \<open>kwargs\<close> is the dict of the keyword arguments that
  name no declared parameter, in the order of the call.
\<close>

definition service_requests_update_data :: "pydict \<Rightarrow> pydict" where
  "service_requests_update_data kwargs = filter (\<lambda>(k, v). v \<noteq> PNone) kwargs"

definition service_requests_update ::
  "('e, 'w) client \<Rightarrow> string \<Rightarrow> pydict \<Rightarrow> 'w \<Rightarrow> ('e + pyval) \<times> 'w" where
  "service_requests_update c ident kwargs =
     client_put c (''/v1/service-requests/'' @ ident)
       (Some (service_requests_update_data kwargs))"

definition service_requests_delete ::
  "('e, 'w) client \<Rightarrow> string \<Rightarrow> 'w \<Rightarrow> ('e + pyval) \<times> 'w" where
  "service_requests_delete c ident w =
     discard (client_delete c (''/v1/service-requests/'' @ ident) w)"

section \<open>WebhooksResource\<close>

definition webhooks_list_params :: "pyval \<Rightarrow> pyval \<Rightarrow> pydict" where
  "webhooks_list_params page per_page = [(''page'', page), (''per_page'', per_page)]"

definition webhooks_list ::
  "('e, 'w) client \<Rightarrow> pyval \<Rightarrow> pyval \<Rightarrow> 'w \<Rightarrow> ('e + pyval) \<times> 'w" where
  "webhooks_list c page per_page =
     client_get c ''/v1/webhooks'' (Some (webhooks_list_params page per_page))"

definition webhooks_get ::
  "('e, 'w) client \<Rightarrow> string \<Rightarrow> 'w \<Rightarrow> ('e + pyval) \<times> 'w" where
  "webhooks_get c ident = client_get c (''/v1/webhooks/'' @ ident) None"

definition webhooks_create_data :: "pyval \<Rightarrow> pyval \<Rightarrow> pyval \<Rightarrow> pydict" where
  "webhooks_create_data name url events =
     [(''name'', name), (''url'', url), (''events'', events)]"

definition webhooks_create ::
  "('e, 'w) client \<Rightarrow> pyval \<Rightarrow> pyval \<Rightarrow> pyval \<Rightarrow> 'w \<Rightarrow> ('e + pyval) \<times> 'w" where
  "webhooks_create c name url events =
     client_post c ''/v1/webhooks'' (Some (webhooks_create_data name url events))"

definition webhooks_update_data :: "pyval \<Rightarrow> pyval \<Rightarrow> pyval \<Rightarrow> pyval \<Rightarrow> pydict" where
  "webhooks_update_data name url events is_active =
     filter (\<lambda>(k, v). v \<noteq> PNone)
       [(''name'', name), (''url'', url), (''events'', events), (''is_active'', is_active)]"

definition webhooks_update ::
  "('e, 'w) client \<Rightarrow> string \<Rightarrow> pyval \<Rightarrow> pyval \<Rightarrow> pyval \<Rightarrow> pyval
     \<Rightarrow> 'w \<Rightarrow> ('e + pyval) \<times> 'w" where
  "webhooks_update c ident name url events is_active =
     client_put c (''/v1/webhooks/'' @ ident)
       (Some (webhooks_update_data name url events is_active))"

definition webhooks_delete ::
  "('e, 'w) client \<Rightarrow> string \<Rightarrow> 'w \<Rightarrow> ('e + pyval) \<times> 'w" where
  "webhooks_delete c ident w = discard (client_delete c (''/v1/webhooks/'' @ ident) w)"

definition webhooks_list_deliveries_params :: "pyval \<Rightarrow> pyval \<Rightarrow> pyval \<Rightarrow> pydict" where
  "webhooks_list_deliveries_params page per_page event_type =
     [(''page'', page), (''per_page'', per_page), (''event_type'', event_type)]"

definition webhooks_list_deliveries ::
  "('e, 'w) client \<Rightarrow> string \<Rightarrow> pyval \<Rightarrow> pyval \<Rightarrow> pyval \<Rightarrow> 'w \<Rightarrow> ('e + pyval) \<times> 'w" where
  "webhooks_list_deliveries c webhook_id page per_page event_type =
     client_get c (''/v1/webhooks/'' @ webhook_id @ ''/deliveries'')
       (Some (webhooks_list_deliveries_params page per_page event_type))"

definition webhooks_test ::
  "('e, 'w) client \<Rightarrow> string \<Rightarrow> 'w \<Rightarrow> ('e + pyval) \<times> 'w" where
  "webhooks_test c ident = client_post c (''/v1/webhooks/'' @ ident @ ''/test'') None"

section \<open>Observing the calls made on the client\<close>

text \<open>
  \<open>recording c\<close> is the client \<open>c\<close> with a journal beside the state of the world: every
  helper invocation is appended to the journal and otherwise handled by \<open>c\<close>. What a
  method transmits, and how often, is read off the journal.
\<close>

definition recording :: "('e, 'w) client \<Rightarrow> ('e, 'w \<times> request list) client" where
  "recording c rq s =
     (case s of (w, journal) \<Rightarrow>
        (case c rq w of (r, w') \<Rightarrow> (r, (w', journal @ [rq]))))"

text \<open>The requests a method makes, started on an empty journal.\<close>

definition sent ::
  "(('e, 'w \<times> request list) client \<Rightarrow> 'w \<times> request list \<Rightarrow> ('e + pyval) \<times> 'w \<times> request list)
     \<Rightarrow> ('e, 'w) client \<Rightarrow> 'w \<Rightarrow> request list" where
  "sent m c w = snd (snd (m (recording c) (w, [])))"

section \<open>Binding the arguments of a call\<close>

text \<open>
  What Python does with the arguments of a call before the body of a method runs, as
  far as the \<open>def\<close> lines of the two classes need it. A signature lists, after \<open>self\<close>,
  the parameters without a default, the parameters with a default (the default is
  \<open>None\<close> for every one of them in these classes) and whether \<open>**kwargs\<close> closes the list.
  A call gives positional arguments and keyword arguments. It raises \<open>TypeError\<close> when
  there are more positional arguments than parameters, when a keyword is repeated
  (by unpacking; written out twice, the compiler refuses the call),
  when a keyword names \<open>self\<close> or a parameter already given by position, when a keyword
  names no parameter and there is no \<open>**kwargs\<close>, or when a parameter without default
  is not given. Otherwise the body runs with every parameter bound (to its argument,
  or to \<open>None\<close>) and with \<open>kwargs\<close> holding the keyword arguments that name no parameter,
  in the order of the call.
\<close>

record signature =
  required :: "string list"
  defaulted :: "string list"
  var_keyword :: bool

datatype call_error = TypeError

definition arg :: "pydict \<Rightarrow> string \<Rightarrow> pyval" where
  "arg env p = (case map_of env p of None \<Rightarrow> PNone | Some v \<Rightarrow> v)"

definition bind_call ::
  "signature \<Rightarrow> pyval list \<Rightarrow> pydict \<Rightarrow> call_error + pydict \<times> pydict" where
  "bind_call sg args kw =
     (let names = required sg @ defaulted sg;
          positional = zip names args;
          keywords = map fst kw
      in if length names < length args then Inl TypeError
         else if \<not> distinct keywords then Inl TypeError
         else if list_ex (\<lambda>k. k = ''self'' \<or> k \<in> set (map fst positional)) keywords
           then Inl TypeError
         else if \<not> var_keyword sg \<and> list_ex (\<lambda>k. k \<notin> set names) keywords
           then Inl TypeError
         else if list_ex (\<lambda>p. p \<notin> set (map fst positional @ keywords)) (required sg)
           then Inl TypeError
         else Inr (map (\<lambda>p. (p, arg (positional @ kw) p)) names,
                   filter (\<lambda>(k, v). k \<notin> set names) kw))"

text \<open>The \<open>def\<close> lines of the methods whose keyword arguments the properties speak of.\<close>

definition service_requests_list_sig :: signature where
  "service_requests_list_sig =
     \<lparr>required = [],
      defaulted = [''page'', ''per_page'', ''search'', ''sort'', ''order'', ''status'',
                   ''priority'', ''client_id''],
      var_keyword = False\<rparr>"

definition service_requests_update_sig :: signature where
  "service_requests_update_sig = \<lparr>required = [''id''], defaulted = [], var_keyword = True\<rparr>"

definition webhooks_list_sig :: signature where
  "webhooks_list_sig =
     \<lparr>required = [], defaulted = [''page'', ''per_page''], var_keyword = False\<rparr>"

definition webhooks_update_sig :: signature where
  "webhooks_update_sig =
     \<lparr>required = [''id''],
      defaulted = [''name'', ''url'', ''events'', ''is_active''],
      var_keyword = False\<rparr>"

definition webhooks_list_deliveries_sig :: signature where
  "webhooks_list_deliveries_sig =
     \<lparr>required = [''webhook_id''],
      defaulted = [''page'', ''per_page'', ''event_type''],
      var_keyword = False\<rparr>"

text \<open>
  Calls as a caller writes them. The list methods take any positional and keyword
  arguments; the methods with an identifier are called with the identifier, a
  string, in first position and everything else by keyword:
  \<open>update("sr_1", status="scheduled")\<close>. The result is \<open>Inl TypeError\<close> when the call
  raises before the body runs (nothing reaches the client), and \<open>Inr\<close> of what the
  body does otherwise.
\<close>

definition call_service_requests_list ::
  "('e, 'w) client \<Rightarrow> pyval list \<Rightarrow> pydict \<Rightarrow> call_error + ('w \<Rightarrow> ('e + pyval) \<times> 'w)" where
  "call_service_requests_list c args kw =
     (case bind_call service_requests_list_sig args kw of
        Inl e \<Rightarrow> Inl e
      | Inr (env, kwargs) \<Rightarrow>
          Inr (service_requests_list c (arg env ''page'') (arg env ''per_page'')
                 (arg env ''search'') (arg env ''sort'') (arg env ''order'')
                 (arg env ''status'') (arg env ''priority'') (arg env ''client_id'')))"

definition call_service_requests_update ::
  "('e, 'w) client \<Rightarrow> string \<Rightarrow> pydict \<Rightarrow> call_error + ('w \<Rightarrow> ('e + pyval) \<times> 'w)" where
  "call_service_requests_update c ident kw =
     (case bind_call service_requests_update_sig [PStr ident] kw of
        Inl e \<Rightarrow> Inl e
      | Inr (env, kwargs) \<Rightarrow> Inr (service_requests_update c ident kwargs))"

definition call_webhooks_list ::
  "('e, 'w) client \<Rightarrow> pyval list \<Rightarrow> pydict \<Rightarrow> call_error + ('w \<Rightarrow> ('e + pyval) \<times> 'w)" where
  "call_webhooks_list c args kw =
     (case bind_call webhooks_list_sig args kw of
        Inl e \<Rightarrow> Inl e
      | Inr (env, kwargs) \<Rightarrow> Inr (webhooks_list c (arg env ''page'') (arg env ''per_page'')))"

definition call_webhooks_update ::
  "('e, 'w) client \<Rightarrow> string \<Rightarrow> pydict \<Rightarrow> call_error + ('w \<Rightarrow> ('e + pyval) \<times> 'w)" where
  "call_webhooks_update c ident kw =
     (case bind_call webhooks_update_sig [PStr ident] kw of
        Inl e \<Rightarrow> Inl e
      | Inr (env, kwargs) \<Rightarrow>
          Inr (webhooks_update c ident (arg env ''name'') (arg env ''url'')
                 (arg env ''events'') (arg env ''is_active'')))"

definition call_webhooks_list_deliveries ::
  "('e, 'w) client \<Rightarrow> string \<Rightarrow> pydict \<Rightarrow> call_error + ('w \<Rightarrow> ('e + pyval) \<times> 'w)" where
  "call_webhooks_list_deliveries c webhook_id kw =
     (case bind_call webhooks_list_deliveries_sig [PStr webhook_id] kw of
        Inl e \<Rightarrow> Inl e
      | Inr (env, kwargs) \<Rightarrow>
          Inr (webhooks_list_deliveries c webhook_id (arg env ''page'') (arg env ''per_page'')
                 (arg env ''event_type'')))"

text \<open>The requests such a call makes: none when it raises \<open>TypeError\<close>.\<close>

definition sent_by ::
  "(('e, 'w \<times> request list) client
      \<Rightarrow> call_error + ('w \<times> request list \<Rightarrow> ('e + pyval) \<times> 'w \<times> request list))
     \<Rightarrow> ('e, 'w) client \<Rightarrow> 'w \<Rightarrow> call_error + request list" where
  "sent_by m c w =
     (case m (recording c) of Inl e \<Rightarrow> Inl e | Inr body \<Rightarrow> Inr (snd (snd (body (w, [])))))"

section \<open>The declared response shapes of the webhook operations\<close>








section \<open>Reading the secret off a response\<close>



section \<open>Basic facts\<close>

lemmas helper_defs = client_get_def client_post_def client_put_def client_delete_def

lemma recording_apply:
  "recording c rq (w, js) = (fst (c rq w), (snd (c rq w), js @ [rq]))"
  by (simp add: recording_def split: prod.splits)

lemma sent_helper:
  "sent (\<lambda>k. k rq) c w = [rq]"
  by (simp add: sent_def recording_apply)

lemmas method_defs =
  service_requests_list_def service_requests_get_def service_requests_create_def
  service_requests_update_def service_requests_delete_def
  webhooks_list_def webhooks_get_def webhooks_create_def webhooks_update_def
  webhooks_delete_def webhooks_list_deliveries_def webhooks_test_def

lemma discard_apply:
  "discard r = (map_sum id (\<lambda>_. PNone) (fst r), snd r)"
  by (simp add: discard_def split: prod.splits sum.splits)

lemma relay_exI:
  "m = (fst (c rq w), snd (c rq w), js @ [rq]) \<Longrightarrow>
   \<exists>rq. m = (fst (c rq w), snd (c rq w), js @ [rq])"
  by blast

lemma relay_discard_exI:
  "m = (map_sum id (\<lambda>_. PNone) (fst (c rq w)), snd (c rq w), js @ [rq]) \<Longrightarrow>
   \<exists>rq. m = (map_sum id (\<lambda>_. PNone) (fst (c rq w)), snd (c rq w), js @ [rq])"
  by blast

lemma lookup_kept_items:
  assumes "distinct (map fst items)"
  shows "map_of (filter (\<lambda>(key, val). keep key val) items) key =
           (case map_of items key of
              Some val \<Rightarrow> (if keep key val then Some val else None)
            | None \<Rightarrow> None)"
  using assms
proof (induction items)
  case Nil
  show ?case by simp
next
  case (Cons item items)
  obtain k0 v0 where item: "item = (k0, v0)"
    by (cases item)
  have rest: "distinct (map fst items)" and fresh: "k0 \<notin> fst ` set items"
    using Cons.prems by (simp_all add: item)
  have dropped: "map_of (filter (\<lambda>(key, val). keep key val) items) k0 = None"
    using fresh by (auto simp: map_of_eq_None_iff)
  from Cons.IH [OF rest] dropped show ?case
    by (auto simp: item)
qed

subsection \<open>Calls that bind and calls that raise\<close>

lemma bind_call_accepts:
  assumes len: "length args = length (required sg)"
    and dis: "distinct (map fst kw)"
    and self: "''self'' \<notin> set (map fst kw)"
    and pos: "set (map fst kw) \<inter> set (required sg) = {}"
    and known: "var_keyword sg \<or> set (map fst kw) \<subseteq> set (required sg @ defaulted sg)"
  shows "bind_call sg args kw =
    Inr (map (\<lambda>p. (p, arg (zip (required sg) args @ kw) p)) (required sg @ defaulted sg),
         filter (\<lambda>(k, v). k \<notin> set (required sg @ defaulted sg)) kw)"
proof -
  have z: "zip (required sg @ defaulted sg) args = zip (required sg) args"
    using len by (simp add: zip_append1)
  have f: "map fst (zip (required sg) args) = required sg"
    using len by (simp add: map_fst_zip)
  have a: "\<not> list_ex (\<lambda>k. k = ''self'' \<or> k \<in> set (required sg)) (map fst kw)"
    using self pos by (force simp: list_ex_iff)
  have b: "\<not> (\<not> var_keyword sg \<and>
              list_ex (\<lambda>k. k \<notin> set (required sg @ defaulted sg)) (map fst kw))"
    using known by (auto simp: list_ex_iff)
  have c: "\<not> list_ex (\<lambda>p. p \<notin> set (required sg @ map fst kw)) (required sg)"
    by (auto simp: list_ex_iff)
  show ?thesis
    unfolding bind_call_def Let_def z f
    using len dis a b c by simp
qed

lemma bind_call_rejects:
  assumes "''self'' \<in> set (map fst kw)
         \<or> set (map fst kw) \<inter> set (map fst (zip (required sg @ defaulted sg) args)) \<noteq> {}
         \<or> (\<not> var_keyword sg \<and> \<not> set (map fst kw) \<subseteq> set (required sg @ defaulted sg))"
  shows "bind_call sg args kw = Inl TypeError"
  using assms unfolding bind_call_def Let_def
  by (auto simp: list_ex_iff)

lemma arg_append_None:
  assumes "f \<notin> set (map fst kw1)" and "f \<notin> set (map fst kw2)"
  shows "arg (pre @ kw1 @ (f, PNone) # kw2) p = arg (pre @ kw1 @ kw2) p"
proof -
  have n1: "map_of kw1 f = None" and n2: "map_of kw2 f = None"
    using assms by (simp_all add: map_of_eq_None_iff)
  show ?thesis
    unfolding arg_def
    by (cases "p = f") (simp_all add: map_add_def n1 n2 split: option.splits)
qed

lemma filter_keys_id:
  "set (map fst kw) \<inter> set ns = {} \<Longrightarrow> filter (\<lambda>(k, v). k \<notin> set ns) kw = kw"
  by (induction kw) auto

lemma call_service_requests_update_ok:
  assumes "distinct (map fst kw)" "''id'' \<notin> set (map fst kw)" "''self'' \<notin> set (map fst kw)"
  shows "call_service_requests_update c i kw = Inr (service_requests_update c i kw)"
proof -
  have "bind_call service_requests_update_sig [PStr i] kw =
      Inr ([(''id'', arg ((''id'', PStr i) # kw) ''id'')], filter (\<lambda>(k, v). k \<notin> set [''id'']) kw)"
    using assms bind_call_accepts [of "[PStr i]" service_requests_update_sig kw]
    by (simp add: service_requests_update_sig_def)
  moreover have "filter (\<lambda>(k, v). k \<notin> set [''id'']) kw = kw"
    using assms(2) by (intro filter_keys_id) simp
  ultimately show ?thesis
    by (simp add: call_service_requests_update_def)
qed

lemma call_service_requests_update_bad:
  assumes "''id'' \<in> set (map fst kw) \<or> ''self'' \<in> set (map fst kw)"
  shows "call_service_requests_update c i kw = Inl TypeError"
proof -
  have "bind_call service_requests_update_sig [PStr i] kw = Inl TypeError"
    using assms by (intro bind_call_rejects) (auto simp: service_requests_update_sig_def)
  then show ?thesis by (simp add: call_service_requests_update_def)
qed

lemma call_webhooks_update_ok:
  assumes "distinct (map fst kw)"
    and "set (map fst kw) \<subseteq> {''name'', ''url'', ''events'', ''is_active''}"
  shows "call_webhooks_update c i kw =
    Inr (webhooks_update c i (arg kw ''name'') (arg kw ''url'') (arg kw ''events'')
           (arg kw ''is_active''))"
proof -
  have "bind_call webhooks_update_sig [PStr i] kw =
      Inr (map (\<lambda>p. (p, arg ((''id'', PStr i) # kw) p))
             [''id'', ''name'', ''url'', ''events'', ''is_active''],
           filter (\<lambda>(k, v). k \<notin> set [''id'', ''name'', ''url'', ''events'', ''is_active'']) kw)"
    using assms bind_call_accepts [of "[PStr i]" webhooks_update_sig kw]
    by (auto simp: webhooks_update_sig_def)
  then show ?thesis
    by (simp add: call_webhooks_update_def arg_def)
qed

lemma call_webhooks_update_bad:
  assumes "\<not> set (map fst kw) \<subseteq> {''name'', ''url'', ''events'', ''is_active''}"
  shows "call_webhooks_update c i kw = Inl TypeError"
proof -
  have "bind_call webhooks_update_sig [PStr i] kw = Inl TypeError"
    using assms by (intro bind_call_rejects) (force simp: webhooks_update_sig_def)
  then show ?thesis by (simp add: call_webhooks_update_def)
qed

lemma call_service_requests_list_ok:
  assumes "distinct (map fst kw)"
    and "set (map fst kw) \<subseteq> {''page'', ''per_page'', ''search'', ''sort'', ''order'',
           ''status'', ''priority'', ''client_id''}"
  shows "call_service_requests_list c [] kw =
    Inr (service_requests_list c (arg kw ''page'') (arg kw ''per_page'') (arg kw ''search'')
           (arg kw ''sort'') (arg kw ''order'') (arg kw ''status'') (arg kw ''priority'')
           (arg kw ''client_id''))"
proof -
  have "bind_call service_requests_list_sig [] kw =
      Inr (map (\<lambda>p. (p, arg kw p))
             [''page'', ''per_page'', ''search'', ''sort'', ''order'', ''status'', ''priority'',
              ''client_id''],
           filter (\<lambda>(k, v). k \<notin> set [''page'', ''per_page'', ''search'', ''sort'', ''order'',
              ''status'', ''priority'', ''client_id'']) kw)"
    using assms bind_call_accepts [of "[]" service_requests_list_sig kw]
    by (auto simp: service_requests_list_sig_def)
  then show ?thesis
    by (simp add: call_service_requests_list_def arg_def)
qed

lemma call_webhooks_list_ok:
  assumes "distinct (map fst kw)" and "set (map fst kw) \<subseteq> {''page'', ''per_page''}"
  shows "call_webhooks_list c [] kw =
    Inr (webhooks_list c (arg kw ''page'') (arg kw ''per_page''))"
proof -
  have "bind_call webhooks_list_sig [] kw =
      Inr (map (\<lambda>p. (p, arg kw p)) [''page'', ''per_page''],
           filter (\<lambda>(k, v). k \<notin> set [''page'', ''per_page'']) kw)"
    using assms bind_call_accepts [of "[]" webhooks_list_sig kw]
    by (auto simp: webhooks_list_sig_def)
  then show ?thesis
    by (simp add: call_webhooks_list_def arg_def)
qed

lemma call_webhooks_list_bad:
  assumes "\<not> set (map fst kw) \<subseteq> {''page'', ''per_page''}"
  shows "call_webhooks_list c args kw = Inl TypeError"
proof -
  have "bind_call webhooks_list_sig args kw = Inl TypeError"
    using assms by (intro bind_call_rejects) (auto simp: webhooks_list_sig_def)
  then show ?thesis by (simp add: call_webhooks_list_def)
qed

lemma call_webhooks_list_deliveries_ok:
  assumes "distinct (map fst kw)"
    and "set (map fst kw) \<subseteq> {''page'', ''per_page'', ''event_type''}"
  shows "call_webhooks_list_deliveries c i kw =
    Inr (webhooks_list_deliveries c i (arg kw ''page'') (arg kw ''per_page'')
           (arg kw ''event_type''))"
proof -
  have "bind_call webhooks_list_deliveries_sig [PStr i] kw =
      Inr (map (\<lambda>p. (p, arg ((''webhook_id'', PStr i) # kw) p))
             [''webhook_id'', ''page'', ''per_page'', ''event_type''],
           filter (\<lambda>(k, v). k \<notin> set [''webhook_id'', ''page'', ''per_page'', ''event_type'']) kw)"
    using assms bind_call_accepts [of "[PStr i]" webhooks_list_deliveries_sig kw]
    by (auto simp: webhooks_list_deliveries_sig_def)
  then show ?thesis
    by (simp add: call_webhooks_list_deliveries_def arg_def)
qed

lemma call_webhooks_list_deliveries_bad:
  assumes "\<not> set (map fst kw) \<subseteq> {''page'', ''per_page'', ''event_type''}"
  shows "call_webhooks_list_deliveries c i kw = Inl TypeError"
proof -
  have "bind_call webhooks_list_deliveries_sig [PStr i] kw = Inl TypeError"
    using assms by (intro bind_call_rejects) (force simp: webhooks_list_deliveries_sig_def)
  then show ?thesis by (simp add: call_webhooks_list_deliveries_def)
qed

lemma arg_eq_iff:
  assumes "distinct (map fst kw)" and "v \<noteq> PNone"
  shows "arg kw f = v \<longleftrightarrow> (f, v) \<in> set kw"
proof -
  have "(f, v) \<in> set kw \<longleftrightarrow> map_of kw f = Some v"
    using assms(1) by simp
  then show ?thesis
    using assms(2) by (auto simp: arg_def split: option.splits)
qed

lemma id_by_keyword:
  "bind_call service_requests_update_sig [] ((''id'', PStr i) # kw) =
   bind_call service_requests_update_sig [PStr i] kw"
proof -
  have m: "(k \<in> fst ` set kw) = (k \<in> set (map fst kw))" for k
    by simp
  show ?thesis
    unfolding bind_call_def Let_def service_requests_update_sig_def
    by (simp add: arg_def list_ex_iff del: set_map) (auto simp: m simp del: set_map)
qed

section \<open>One call on the client, its outcome handed on\<close>

text \<open>
  C5: every resource method calls the shared client exactly once and hands its outcome
  on. Run on a recording client from any state of the world and any journal, each
  method leaves the journal one request longer, leaves the world as that one call
  left it, and returns what that call returned or raises what it raised (\<open>Inl e\<close> stays
  \<open>Inl e\<close>); \<open>delete\<close> returns \<open>None\<close> in place of the value. No second call, no retry, no
  value of the method's own in place of a failure.
\<close>

theorem C5_single_call:
  "(\<exists>rq. service_requests_list (recording c) p1 p2 p3 p4 p5 p6 p7 p8 (w, js)
           = (fst (c rq w), snd (c rq w), js @ [rq]))
 \<and> (\<exists>rq. service_requests_get (recording c) i (w, js)
           = (fst (c rq w), snd (c rq w), js @ [rq]))
 \<and> (\<exists>rq. service_requests_create (recording c) t a1 a2 a3 a4 a5 a6 a7 a8 a9 a10 a11 a12 (w, js)
           = (fst (c rq w), snd (c rq w), js @ [rq]))
 \<and> (\<exists>rq. service_requests_update (recording c) i kw (w, js)
           = (fst (c rq w), snd (c rq w), js @ [rq]))
 \<and> (\<exists>rq. service_requests_delete (recording c) i (w, js)
           = (map_sum id (\<lambda>_. PNone) (fst (c rq w)), snd (c rq w), js @ [rq]))
 \<and> (\<exists>rq. webhooks_list (recording c) p1 p2 (w, js)
           = (fst (c rq w), snd (c rq w), js @ [rq]))
 \<and> (\<exists>rq. webhooks_get (recording c) i (w, js)
           = (fst (c rq w), snd (c rq w), js @ [rq]))
 \<and> (\<exists>rq. webhooks_create (recording c) n u ev (w, js)
           = (fst (c rq w), snd (c rq w), js @ [rq]))
 \<and> (\<exists>rq. webhooks_update (recording c) i n u ev ac (w, js)
           = (fst (c rq w), snd (c rq w), js @ [rq]))
 \<and> (\<exists>rq. webhooks_delete (recording c) i (w, js)
           = (map_sum id (\<lambda>_. PNone) (fst (c rq w)), snd (c rq w), js @ [rq]))
 \<and> (\<exists>rq. webhooks_list_deliveries (recording c) i p1 p2 p3 (w, js)
           = (fst (c rq w), snd (c rq w), js @ [rq]))
 \<and> (\<exists>rq. webhooks_test (recording c) i (w, js)
           = (fst (c rq w), snd (c rq w), js @ [rq]))"
  by (intro conjI; (rule relay_exI | rule relay_discard_exI);
      simp add: method_defs helper_defs recording_apply discard_apply)

text \<open>
  C6: what \<open>get\<close>, \<open>list\<close> and \<open>list_deliveries\<close> return is exactly what the one call on the
  shared client returns, in the same state of the world: the decoded envelope, and every
  entity record in it, reaches the caller as it is, no key added, dropped or changed.
\<close>

theorem C6_round_trip:
  "service_requests_list c p1 p2 p3 p4 p5 p6 p7 p8 w =
     c \<lparr>verb = GET, path = ''/v1/service-requests'',
        params = Some (service_requests_list_params p1 p2 p3 p4 p5 p6 p7 p8), json = None\<rparr> w
 \<and> service_requests_get c i w =
     c \<lparr>verb = GET, path = ''/v1/service-requests/'' @ i, params = None, json = None\<rparr> w
 \<and> webhooks_list c p1 p2 w =
     c \<lparr>verb = GET, path = ''/v1/webhooks'',
        params = Some (webhooks_list_params p1 p2), json = None\<rparr> w
 \<and> webhooks_get c i w =
     c \<lparr>verb = GET, path = ''/v1/webhooks/'' @ i, params = None, json = None\<rparr> w
 \<and> webhooks_list_deliveries c i p1 p2 p3 w =
     c \<lparr>verb = GET, path = ''/v1/webhooks/'' @ i @ ''/deliveries'',
        params = Some (webhooks_list_deliveries_params p1 p2 p3), json = None\<rparr> w"
  by (simp add: method_defs helper_defs)

section \<open>Verbs and URL templates\<close>

text \<open>
  C7: every method addresses its fixed URL template with its fixed verb, whatever the
  identifier and the other arguments: the single request it makes is GET on
  \<open>/v1/{resource}\<close> for list and on \<open>/v1/{resource}/{id}\<close> for get, POST on
  \<open>/v1/{resource}\<close> for create, PUT on \<open>/v1/{resource}/{id}\<close> for update, DELETE on
  \<open>/v1/{resource}/{id}\<close> for delete, GET on \<open>/v1/webhooks/{id}/deliveries\<close> for
  list_deliveries and POST on \<open>/v1/webhooks/{id}/test\<close> for test.
\<close>

theorem C7_verb_and_url:
  "map (\<lambda>r. (verb r, path r))
     (sent (\<lambda>k. service_requests_list k p1 p2 p3 p4 p5 p6 p7 p8) c w)
     = [(GET, ''/v1/service-requests'')]
 \<and> map (\<lambda>r. (verb r, path r)) (sent (\<lambda>k. service_requests_get k i) c w)
     = [(GET, ''/v1/service-requests/'' @ i)]
 \<and> map (\<lambda>r. (verb r, path r))
     (sent (\<lambda>k. service_requests_create k t a1 a2 a3 a4 a5 a6 a7 a8 a9 a10 a11 a12) c w)
     = [(POST, ''/v1/service-requests'')]
 \<and> map (\<lambda>r. (verb r, path r)) (sent (\<lambda>k. service_requests_update k i kw) c w)
     = [(PUT, ''/v1/service-requests/'' @ i)]
 \<and> map (\<lambda>r. (verb r, path r)) (sent (\<lambda>k. service_requests_delete k i) c w)
     = [(DELETE, ''/v1/service-requests/'' @ i)]
 \<and> map (\<lambda>r. (verb r, path r)) (sent (\<lambda>k. webhooks_list k p1 p2) c w)
     = [(GET, ''/v1/webhooks'')]
 \<and> map (\<lambda>r. (verb r, path r)) (sent (\<lambda>k. webhooks_get k i) c w)
     = [(GET, ''/v1/webhooks/'' @ i)]
 \<and> map (\<lambda>r. (verb r, path r)) (sent (\<lambda>k. webhooks_create k n u ev) c w)
     = [(POST, ''/v1/webhooks'')]
 \<and> map (\<lambda>r. (verb r, path r)) (sent (\<lambda>k. webhooks_update k i n u ev ac) c w)
     = [(PUT, ''/v1/webhooks/'' @ i)]
 \<and> map (\<lambda>r. (verb r, path r)) (sent (\<lambda>k. webhooks_delete k i) c w)
     = [(DELETE, ''/v1/webhooks/'' @ i)]
 \<and> map (\<lambda>r. (verb r, path r)) (sent (\<lambda>k. webhooks_list_deliveries k i p1 p2 p3) c w)
     = [(GET, ''/v1/webhooks/'' @ i @ ''/deliveries'')]
 \<and> map (\<lambda>r. (verb r, path r)) (sent (\<lambda>k. webhooks_test k i) c w)
     = [(POST, ''/v1/webhooks/'' @ i @ ''/test'')]"
  by (simp add: sent_def method_defs helper_defs recording_apply discard_apply)

section \<open>Request bodies and query parameters\<close>

text \<open>
  C1: the body of a create call always holds its required fields, whatever their
  value, and none of the optional fields left unset. For service requests the body
  sent is the dict whose key \<open>title\<close> maps to the title given (so also for the empty
  string, where the body is exactly \<open>{"title": ""}\<close>), and each of the twelve optional
  keys is absent when its argument is \<open>None\<close> and maps to its argument otherwise. For
  webhooks the body is exactly \<open>name\<close>, \<open>url\<close> and \<open>events\<close> with the values given; the
  method has no optional field.
\<close>

theorem C1_create_body:
  "map json (sent (\<lambda>k. service_requests_create k t a1 a2 a3 a4 a5 a6 a7 a8 a9 a10 a11 a12) c w)
     = [Some (service_requests_create_data t a1 a2 a3 a4 a5 a6 a7 a8 a9 a10 a11 a12)]
 \<and> map_of (service_requests_create_data t a1 a2 a3 a4 a5 a6 a7 a8 a9 a10 a11 a12) ''title''
     = Some t
 \<and> map_of (service_requests_create_data t a1 a2 a3 a4 a5 a6 a7 a8 a9 a10 a11 a12) ''client_id''
     = (if a1 = PNone then None else Some a1)
 \<and> map_of (service_requests_create_data t a1 a2 a3 a4 a5 a6 a7 a8 a9 a10 a11 a12) ''description''
     = (if a2 = PNone then None else Some a2)
 \<and> map_of (service_requests_create_data t a1 a2 a3 a4 a5 a6 a7 a8 a9 a10 a11 a12) ''status''
     = (if a3 = PNone then None else Some a3)
 \<and> map_of (service_requests_create_data t a1 a2 a3 a4 a5 a6 a7 a8 a9 a10 a11 a12) ''source''
     = (if a4 = PNone then None else Some a4)
 \<and> map_of (service_requests_create_data t a1 a2 a3 a4 a5 a6 a7 a8 a9 a10 a11 a12) ''priority''
     = (if a5 = PNone then None else Some a5)
 \<and> map_of (service_requests_create_data t a1 a2 a3 a4 a5 a6 a7 a8 a9 a10 a11 a12) ''requested_date''
     = (if a6 = PNone then None else Some a6)
 \<and> map_of (service_requests_create_data t a1 a2 a3 a4 a5 a6 a7 a8 a9 a10 a11 a12) ''preferred_time''
     = (if a7 = PNone then None else Some a7)
 \<and> map_of (service_requests_create_data t a1 a2 a3 a4 a5 a6 a7 a8 a9 a10 a11 a12) ''address''
     = (if a8 = PNone then None else Some a8)
 \<and> map_of (service_requests_create_data t a1 a2 a3 a4 a5 a6 a7 a8 a9 a10 a11 a12) ''contact_name''
     = (if a9 = PNone then None else Some a9)
 \<and> map_of (service_requests_create_data t a1 a2 a3 a4 a5 a6 a7 a8 a9 a10 a11 a12) ''contact_email''
     = (if a10 = PNone then None else Some a10)
 \<and> map_of (service_requests_create_data t a1 a2 a3 a4 a5 a6 a7 a8 a9 a10 a11 a12) ''contact_phone''
     = (if a11 = PNone then None else Some a11)
 \<and> map_of (service_requests_create_data t a1 a2 a3 a4 a5 a6 a7 a8 a9 a10 a11 a12) ''notes''
     = (if a12 = PNone then None else Some a12)
 \<and> service_requests_create_data (PStr []) PNone PNone PNone PNone PNone PNone PNone PNone
       PNone PNone PNone PNone = [(''title'', PStr [])]
 \<and> map json (sent (\<lambda>k. webhooks_create k n u ev) c w)
     = [Some [(''name'', n), (''url'', u), (''events'', ev)]]"
proof -
  have body: "map json (sent (\<lambda>k. service_requests_create k t a1 a2 a3 a4 a5 a6 a7 a8 a9 a10 a11 a12) c w)
     = [Some (service_requests_create_data t a1 a2 a3 a4 a5 a6 a7 a8 a9 a10 a11 a12)]"
    by (simp add: service_requests_create_def client_post_def sent_helper)
  have look: "map_of (service_requests_create_data t a1 a2 a3 a4 a5 a6 a7 a8 a9 a10 a11 a12) k =
      (case map_of [(''title'', t), (''client_id'', a1), (''description'', a2), (''status'', a3),
          (''source'', a4), (''priority'', a5), (''requested_date'', a6),
          (''preferred_time'', a7), (''address'', a8), (''contact_name'', a9),
          (''contact_email'', a10), (''contact_phone'', a11), (''notes'', a12)] k of
         None \<Rightarrow> None
       | Some v \<Rightarrow> if v \<noteq> PNone \<or> k = ''title'' then Some v else None)" for k
    unfolding service_requests_create_data_def
    by (subst lookup_kept_items) simp_all
  have empty: "service_requests_create_data (PStr []) PNone PNone PNone PNone PNone PNone PNone
       PNone PNone PNone PNone PNone = [(''title'', PStr [])]"
    by (simp add: service_requests_create_data_def)
  have wh: "map json (sent (\<lambda>k. webhooks_create k n u ev) c w)
     = [Some [(''name'', n), (''url'', u), (''events'', ev)]]"
    by (simp add: webhooks_create_def webhooks_create_data_def client_post_def sent_helper)
  show ?thesis
    unfolding look using body empty wh by simp
qed

text \<open>
  C1 at concrete calls: \<open>create(title="AC Not Cooling", contact_name="John Doe",
  priority="urgent")\<close> sends exactly \<open>title\<close>, \<open>priority\<close> and \<open>contact_name\<close>, with
  \<open>title\<close> present and \<open>description\<close> absent; \<open>create(title="")\<close> sends \<open>title\<close>
  with the empty string.
\<close>

theorem C1_create_body_witness:
  "map json (sent (\<lambda>k. service_requests_create k (PStr ''AC Not Cooling'') PNone PNone PNone
                        PNone (PStr ''urgent'') PNone PNone PNone (PStr ''John Doe'') PNone
                        PNone PNone)
               (\<lambda>rq w. (Inr PNone :: unit + pyval, w)) ()) =
     [Some [(''title'', PStr ''AC Not Cooling''), (''priority'', PStr ''urgent''),
            (''contact_name'', PStr ''John Doe'')]]
 \<and> map_of (service_requests_create_data (PStr ''AC Not Cooling'') PNone PNone PNone
             PNone (PStr ''urgent'') PNone PNone PNone (PStr ''John Doe'') PNone PNone PNone)
       ''title'' = Some (PStr ''AC Not Cooling'')
 \<and> map_of (service_requests_create_data (PStr ''AC Not Cooling'') PNone PNone PNone
             PNone (PStr ''urgent'') PNone PNone PNone (PStr ''John Doe'') PNone PNone PNone)
       ''description'' = None
 \<and> map_of (service_requests_create_data (PStr []) PNone PNone PNone PNone PNone PNone PNone
             PNone PNone PNone PNone PNone) ''title'' = Some (PStr [])"
proof -
  have d: "service_requests_create_data (PStr ''AC Not Cooling'') PNone PNone PNone
             PNone (PStr ''urgent'') PNone PNone PNone (PStr ''John Doe'') PNone PNone PNone =
      [(''title'', PStr ''AC Not Cooling''), (''priority'', PStr ''urgent''),
       (''contact_name'', PStr ''John Doe'')]"
    by (simp add: service_requests_create_data_def)
  show ?thesis
    using C1_create_body
      [where t = "PStr ''AC Not Cooling''" and ?a1.0 = PNone and ?a2.0 = PNone
         and ?a3.0 = PNone and ?a4.0 = PNone and ?a5.0 = "PStr ''urgent''" and ?a6.0 = PNone
         and ?a7.0 = PNone and ?a8.0 = PNone and ?a9.0 = "PStr ''John Doe''"
         and ?a10.0 = PNone and ?a11.0 = PNone and ?a12.0 = PNone
         and c = "\<lambda>rq w. (Inr PNone :: unit + pyval, w)" and w = "()"]
      C1_create_body
      [where t = "PStr []" and ?a1.0 = PNone and ?a2.0 = PNone
         and ?a3.0 = PNone and ?a4.0 = PNone and ?a5.0 = PNone and ?a6.0 = PNone
         and ?a7.0 = PNone and ?a8.0 = PNone and ?a9.0 = PNone
         and ?a10.0 = PNone and ?a11.0 = PNone and ?a12.0 = PNone
         and c = "\<lambda>rq w. (Inr PNone :: unit + pyval, w)" and w = "()"]
    unfolding d by simp
qed

text \<open>
  C10: an update with no field set still goes to the server. With no keyword argument,
  or with every keyword argument \<open>None\<close>, the service-request update makes one PUT request
  on \<open>/v1/service-requests/{id}\<close> whose body is the empty dict; the webhook update with
  every field \<open>None\<close> or not given makes one PUT request on \<open>/v1/webhooks/{id}\<close> whose body
  is the empty dict.
\<close>

theorem C10_empty_update:
  "sent (\<lambda>k. service_requests_update k i []) c w =
     [\<lparr>verb = PUT, path = ''/v1/service-requests/'' @ i, params = None, json = Some []\<rparr>]
 \<and> sent (\<lambda>k. service_requests_update k i (map (\<lambda>f. (f, PNone)) fs)) c w =
     [\<lparr>verb = PUT, path = ''/v1/service-requests/'' @ i, params = None, json = Some []\<rparr>]
 \<and> sent (\<lambda>k. webhooks_update k i PNone PNone PNone PNone) c w =
     [\<lparr>verb = PUT, path = ''/v1/webhooks/'' @ i, params = None, json = Some []\<rparr>]
 \<and> sent_by (\<lambda>k. call_service_requests_update k i []) c w =
     Inr [\<lparr>verb = PUT, path = ''/v1/service-requests/'' @ i, params = None, json = Some []\<rparr>]
 \<and> sent_by (\<lambda>k. call_webhooks_update k i []) c w =
     Inr [\<lparr>verb = PUT, path = ''/v1/webhooks/'' @ i, params = None, json = Some []\<rparr>]"
proof -
  have none: "filter (\<lambda>(k, v). v \<noteq> PNone) (map (\<lambda>f. (f, PNone)) fs) = []"
    by (induction fs) simp_all
  show ?thesis
    by (simp add: none sent_helper sent_by_def service_requests_update_def
        service_requests_update_data_def webhooks_update_def webhooks_update_data_def
        client_put_def call_service_requests_update_def call_webhooks_update_def
        bind_call_def service_requests_update_sig_def webhooks_update_sig_def arg_def
        recording_apply)
qed

text \<open>
  C3, as the code has it: \<open>list\<close> and \<open>list_deliveries\<close> hand the client a parameter dict
  that holds every optional parameter of the method as a key, in the order declared,
  each mapped to the value the method received, so a parameter left unset is there with
  the value \<open>None\<close>: \<open>page\<close>, \<open>per_page\<close>, \<open>search\<close>, \<open>sort\<close>, \<open>order\<close>, \<open>status\<close>, \<open>priority\<close>
  and \<open>client_id\<close> for \<open>service_requests.list\<close>, \<open>page\<close> and \<open>per_page\<close> for
  \<open>webhooks.list\<close>, and \<open>page\<close>, \<open>per_page\<close> and \<open>event_type\<close> for \<open>list_deliveries\<close>, whose
  required \<open>webhook_id\<close> goes into the path and is no key of the dict. The resource
  method drops no key; whether a \<open>None\<close> reaches the query string is left to the client.
\<close>

theorem C3_params_keep_every_key:
  "map params (sent (\<lambda>k. service_requests_list k p1 p2 p3 p4 p5 p6 p7 p8) c w) =
     [Some [(''page'', p1), (''per_page'', p2), (''search'', p3), (''sort'', p4),
            (''order'', p5), (''status'', p6), (''priority'', p7), (''client_id'', p8)]]
 \<and> map params (sent (\<lambda>k. webhooks_list k p1 p2) c w) =
     [Some [(''page'', p1), (''per_page'', p2)]]
 \<and> map (\<lambda>r. (path r, params r)) (sent (\<lambda>k. webhooks_list_deliveries k i p1 p2 p3) c w) =
     [(''/v1/webhooks/'' @ i @ ''/deliveries'',
       Some [(''page'', p1), (''per_page'', p2), (''event_type'', p3)])]"
  by (simp add: sent_helper service_requests_list_def service_requests_list_params_def
      webhooks_list_def webhooks_list_params_def webhooks_list_deliveries_def
      webhooks_list_deliveries_params_def client_get_def)

text \<open>
  C3 as stated fails: \<open>list(status="overdue", page=2)\<close> hands the client a dict in which
  \<open>per_page\<close>, \<open>search\<close>, \<open>sort\<close>, \<open>order\<close>, \<open>priority\<close> and \<open>client_id\<close> are present with the
  value \<open>None\<close>, and \<open>list_deliveries("wh_1")\<close> one in which all three keys are.
\<close>

theorem C3_unset_key_is_handed_as_None:
  "sent_by (\<lambda>k. call_service_requests_list k []
              [(''status'', PStr ''overdue''), (''page'', PInt 2)])
     (\<lambda>rq w. (Inr PNone :: unit + pyval, w)) () =
   Inr [\<lparr>verb = GET, path = ''/v1/service-requests'',
         params = Some [(''page'', PInt 2), (''per_page'', PNone), (''search'', PNone),
                        (''sort'', PNone), (''order'', PNone), (''status'', PStr ''overdue''),
                        (''priority'', PNone), (''client_id'', PNone)],
         json = None\<rparr>]
 \<and> sent (\<lambda>k. webhooks_list_deliveries k ''wh_1'' PNone PNone PNone)
     (\<lambda>rq w. (Inr PNone :: unit + pyval, w)) () =
   [\<lparr>verb = GET, path = ''/v1/webhooks/wh_1/deliveries'',
      params = Some [(''page'', PNone), (''per_page'', PNone), (''event_type'', PNone)],
      json = None\<rparr>]"
  by (simp add: sent_by_def sent_helper call_service_requests_list_def bind_call_def
      service_requests_list_sig_def arg_def service_requests_list_def
      service_requests_list_params_def webhooks_list_deliveries_def
      webhooks_list_deliveries_params_def client_get_def recording_apply)

text \<open>
  C2: an update sends only the fields the caller set to a value other than \<open>None\<close>, and a
  field passed as \<open>None\<close> is a field not passed. For \<open>update("<id>", **kw)\<close> on service
  requests (keywords distinct, none of them \<open>id\<close> or \<open>self\<close>) the body of the one PUT
  request is \<open>kw\<close> without its \<open>None\<close> entries, and the call with a keyword \<open>f=None\<close> is
  the call without that keyword. For webhooks (keywords among \<open>name\<close>, \<open>url\<close>, \<open>events\<close>,
  \<open>is_active\<close>) the body holds exactly the keyword arguments whose value is not \<open>None\<close>,
  and again the call with \<open>g=None\<close> is the call without it. So
  \<open>update("sr_1", status="scheduled")\<close> sends exactly \<open>{"status": "scheduled"}\<close>, and
  giving the identifier by keyword, \<open>update(id="sr_1", ...)\<close>, binds the arguments as
  giving it in first position does.
\<close>

theorem C2_update_body:
  "(distinct (map fst kw) \<and> ''id'' \<notin> set (map fst kw) \<and> ''self'' \<notin> set (map fst kw) \<longrightarrow>
      sent_by (\<lambda>k. call_service_requests_update k i kw) c w =
        Inr [\<lparr>verb = PUT, path = ''/v1/service-requests/'' @ i, params = None,
              json = Some (filter (\<lambda>(f, v). v \<noteq> PNone) kw)\<rparr>])
 \<and> (distinct (map fst (kw1 @ (f, PNone) # kw2)) \<and> f \<noteq> ''id'' \<and> f \<noteq> ''self'' \<longrightarrow>
      call_service_requests_update c i (kw1 @ (f, PNone) # kw2) =
      call_service_requests_update c i (kw1 @ kw2))
 \<and> (distinct (map fst kw') \<and>
      set (map fst kw') \<subseteq> {''name'', ''url'', ''events'', ''is_active''} \<longrightarrow>
      (\<exists>body. sent_by (\<lambda>k. call_webhooks_update k i kw') c w =
                Inr [\<lparr>verb = PUT, path = ''/v1/webhooks/'' @ i, params = None,
                      json = Some body\<rparr>]
             \<and> set body = {(f, v). (f, v) \<in> set kw' \<and> v \<noteq> PNone}))
 \<and> (distinct (map fst (kw3 @ (g, PNone) # kw4)) \<and>
      g \<in> {''name'', ''url'', ''events'', ''is_active''} \<longrightarrow>
      call_webhooks_update c i (kw3 @ (g, PNone) # kw4) =
      call_webhooks_update c i (kw3 @ kw4))
 \<and> sent_by (\<lambda>k. call_service_requests_update k ''sr_1'' [(''status'', PStr ''scheduled'')]) c w =
      Inr [\<lparr>verb = PUT, path = ''/v1/service-requests/sr_1'', params = None,
            json = Some [(''status'', PStr ''scheduled'')]\<rparr>]
 \<and> bind_call service_requests_update_sig [] ((''id'', PStr i) # kw5) =
      bind_call service_requests_update_sig [PStr i] kw5"
proof (intro conjI impI)
  assume "distinct (map fst kw) \<and> ''id'' \<notin> set (map fst kw) \<and> ''self'' \<notin> set (map fst kw)"
  then show "sent_by (\<lambda>k. call_service_requests_update k i kw) c w =
        Inr [\<lparr>verb = PUT, path = ''/v1/service-requests/'' @ i, params = None,
              json = Some (filter (\<lambda>(f, v). v \<noteq> PNone) kw)\<rparr>]"
    by (simp add: sent_by_def call_service_requests_update_ok service_requests_update_def
        service_requests_update_data_def client_put_def recording_apply)
next
  assume a: "distinct (map fst (kw1 @ (f, PNone) # kw2)) \<and> f \<noteq> ''id'' \<and> f \<noteq> ''self''"
  show "call_service_requests_update c i (kw1 @ (f, PNone) # kw2) =
      call_service_requests_update c i (kw1 @ kw2)"
  proof (cases "''id'' \<in> set (map fst (kw1 @ kw2)) \<or> ''self'' \<in> set (map fst (kw1 @ kw2))")
    case True
    then have "''id'' \<in> set (map fst (kw1 @ (f, PNone) # kw2))
             \<or> ''self'' \<in> set (map fst (kw1 @ (f, PNone) # kw2))"
      by auto
    then have "call_service_requests_update c i (kw1 @ (f, PNone) # kw2) = Inl TypeError"
      by (rule call_service_requests_update_bad)
    moreover have "call_service_requests_update c i (kw1 @ kw2) = Inl TypeError"
      using True by (rule call_service_requests_update_bad)
    ultimately show ?thesis by simp
  next
    case False
    with a have ok1: "distinct (map fst (kw1 @ kw2))"
      and ok2: "''id'' \<notin> set (map fst (kw1 @ (f, PNone) # kw2))"
      and ok3: "''self'' \<notin> set (map fst (kw1 @ (f, PNone) # kw2))"
      by auto
    from False have ok4: "''id'' \<notin> set (map fst (kw1 @ kw2))"
      and ok5: "''self'' \<notin> set (map fst (kw1 @ kw2))"
      by auto
    have l: "call_service_requests_update c i (kw1 @ (f, PNone) # kw2) =
        Inr (service_requests_update c i (kw1 @ (f, PNone) # kw2))"
      using a ok2 ok3 by (intro call_service_requests_update_ok) simp_all
    have r: "call_service_requests_update c i (kw1 @ kw2) =
        Inr (service_requests_update c i (kw1 @ kw2))"
      using ok1 ok4 ok5 by (intro call_service_requests_update_ok)
    show ?thesis
      unfolding l r
      by (simp add: service_requests_update_def service_requests_update_data_def)
  qed
next
  assume a: "distinct (map fst kw') \<and>
      set (map fst kw') \<subseteq> {''name'', ''url'', ''events'', ''is_active''}"
  let ?body = "webhooks_update_data (arg kw' ''name'') (arg kw' ''url'') (arg kw' ''events'')
                 (arg kw' ''is_active'')"
  have s: "sent_by (\<lambda>k. call_webhooks_update k i kw') c w =
      Inr [\<lparr>verb = PUT, path = ''/v1/webhooks/'' @ i, params = None, json = Some ?body\<rparr>]"
    using a
    by (simp add: sent_by_def call_webhooks_update_ok webhooks_update_def client_put_def
        recording_apply)
  have d: "distinct (map fst kw')" using a by simp
  have sub: "\<And>f v. (f, v) \<in> set kw' \<Longrightarrow> f \<in> {''name'', ''url'', ''events'', ''is_active''}"
    using a by force
  have "set ?body = {(f, v). (f, v) \<in> set kw' \<and> v \<noteq> PNone}"
  proof (intro set_eqI iffI)
    fix x assume "x \<in> set ?body"
    then obtain n where x: "x = (n, arg kw' n)" and nn: "arg kw' n \<noteq> PNone"
      by (auto simp: webhooks_update_data_def split: if_splits)
    from arg_eq_iff [OF d nn, of n] have "(n, arg kw' n) \<in> set kw'" by simp
    with x nn show "x \<in> {(f, v). (f, v) \<in> set kw' \<and> v \<noteq> PNone}" by simp
  next
    fix x assume "x \<in> {(f, v). (f, v) \<in> set kw' \<and> v \<noteq> PNone}"
    then obtain n v where x: "x = (n, v)" and m: "(n, v) \<in> set kw'" and nn: "v \<noteq> PNone"
      by auto
    from arg_eq_iff [OF d nn, of n] m have e: "arg kw' n = v" by simp
    from sub [OF m] show "x \<in> set ?body"
      using e nn by (auto simp: x webhooks_update_data_def)
  qed
  with s show "\<exists>body. sent_by (\<lambda>k. call_webhooks_update k i kw') c w =
                Inr [\<lparr>verb = PUT, path = ''/v1/webhooks/'' @ i, params = None,
                      json = Some body\<rparr>]
             \<and> set body = {(f, v). (f, v) \<in> set kw' \<and> v \<noteq> PNone}"
    by blast
next
  assume a: "distinct (map fst (kw3 @ (g, PNone) # kw4)) \<and>
      g \<in> {''name'', ''url'', ''events'', ''is_active''}"
  show "call_webhooks_update c i (kw3 @ (g, PNone) # kw4) =
      call_webhooks_update c i (kw3 @ kw4)"
  proof (cases "set (map fst (kw3 @ kw4)) \<subseteq> {''name'', ''url'', ''events'', ''is_active''}")
    case True
    with a have sub: "set (map fst (kw3 @ (g, PNone) # kw4))
        \<subseteq> {''name'', ''url'', ''events'', ''is_active''}"
      by auto
    from a have d: "distinct (map fst (kw3 @ kw4))"
      and g3: "g \<notin> set (map fst kw3)" and g4: "g \<notin> set (map fst kw4)"
      by auto
    have same: "arg (kw3 @ (g, PNone) # kw4) p = arg (kw3 @ kw4) p" for p
      using arg_append_None [OF g3 g4, of "[]" p] by simp
    have l: "call_webhooks_update c i (kw3 @ (g, PNone) # kw4) =
        Inr (webhooks_update c i (arg (kw3 @ (g, PNone) # kw4) ''name'')
               (arg (kw3 @ (g, PNone) # kw4) ''url'') (arg (kw3 @ (g, PNone) # kw4) ''events'')
               (arg (kw3 @ (g, PNone) # kw4) ''is_active''))"
      using a sub by (intro call_webhooks_update_ok) simp_all
    have r: "call_webhooks_update c i (kw3 @ kw4) =
        Inr (webhooks_update c i (arg (kw3 @ kw4) ''name'') (arg (kw3 @ kw4) ''url'')
               (arg (kw3 @ kw4) ''events'') (arg (kw3 @ kw4) ''is_active''))"
      using d True by (intro call_webhooks_update_ok)
    show ?thesis
      unfolding l r same ..
  next
    case False
    then have "\<not> set (map fst (kw3 @ (g, PNone) # kw4))
        \<subseteq> {''name'', ''url'', ''events'', ''is_active''}"
      by auto
    then have "call_webhooks_update c i (kw3 @ (g, PNone) # kw4) = Inl TypeError"
      by (rule call_webhooks_update_bad)
    moreover have "call_webhooks_update c i (kw3 @ kw4) = Inl TypeError"
      using False by (rule call_webhooks_update_bad)
    ultimately show ?thesis by simp
  qed
next
  show "sent_by (\<lambda>k. call_service_requests_update k ''sr_1'' [(''status'', PStr ''scheduled'')]) c w =
      Inr [\<lparr>verb = PUT, path = ''/v1/service-requests/sr_1'', params = None,
            json = Some [(''status'', PStr ''scheduled'')]\<rparr>]"
    by (simp add: sent_by_def call_service_requests_update_ok service_requests_update_def
        service_requests_update_data_def client_put_def recording_apply)
next
  show "bind_call service_requests_update_sig [] ((''id'', PStr i) # kw5) =
      bind_call service_requests_update_sig [PStr i] kw5"
    by (rule id_by_keyword)
qed

text \<open>
  C2 at concrete calls: \<open>update("sr_1", status="scheduled", notes=None)\<close> sends
  \<open>{"status": "scheduled"}\<close> and is the call \<open>update("sr_1", status="scheduled")\<close>;
  the webhook \<open>update("sr_1", is_active=False, url=None)\<close> sends \<open>{"is_active": false}\<close>
  and is the call without \<open>url\<close>.
\<close>

theorem C2_update_body_witness:
  "sent_by (\<lambda>k. call_service_requests_update k ''sr_1''
              [(''status'', PStr ''scheduled''), (''notes'', PNone)])
     (\<lambda>rq w. (Inr PNone :: unit + pyval, w)) () =
     Inr [\<lparr>verb = PUT, path = ''/v1/service-requests/sr_1'', params = None,
           json = Some [(''status'', PStr ''scheduled'')]\<rparr>]
 \<and> call_service_requests_update (\<lambda>rq w. (Inr PNone :: unit + pyval, w :: unit)) ''sr_1''
       [(''status'', PStr ''scheduled''), (''notes'', PNone)] =
     call_service_requests_update (\<lambda>rq w. (Inr PNone, w)) ''sr_1''
       [(''status'', PStr ''scheduled'')]
 \<and> (\<exists>body. sent_by (\<lambda>k. call_webhooks_update k ''sr_1''
                       [(''is_active'', PBool False), (''url'', PNone)])
              (\<lambda>rq w. (Inr PNone :: unit + pyval, w)) () =
              Inr [\<lparr>verb = PUT, path = ''/v1/webhooks/sr_1'', params = None,
                    json = Some body\<rparr>]
           \<and> set body = {(''is_active'', PBool False)})
 \<and> call_webhooks_update (\<lambda>rq w. (Inr PNone :: unit + pyval, w :: unit)) ''sr_1''
       [(''is_active'', PBool False), (''url'', PNone)] =
     call_webhooks_update (\<lambda>rq w. (Inr PNone, w)) ''sr_1'' [(''is_active'', PBool False)]"
proof -
  have eq: "{(f, v). (f, v) \<in> set [(''is_active'', PBool False), (''url'', PNone)] \<and> v \<noteq> PNone}
      = {(''is_active'', PBool False)}"
    by auto
  show ?thesis
    using C2_update_body
      [where kw = "[(''status'', PStr ''scheduled''), (''notes'', PNone)]"
         and c = "\<lambda>rq w. (Inr PNone :: unit + pyval, w)" and i = "''sr_1''" and w = "()"
         and ?kw1.0 = "[(''status'', PStr ''scheduled'')]" and f = "''notes''" and ?kw2.0 = "[]"
         and kw' = "[(''is_active'', PBool False), (''url'', PNone)]"
         and ?kw3.0 = "[(''is_active'', PBool False)]" and g = "''url''" and ?kw4.0 = "[]"]
    unfolding eq by simp
qed

text \<open>
  C9, as the code has it: the service-request update validates no field name. For
  \<open>update("<id>", **kw)\<close> with distinct keywords, none of them a declared parameter
  name (\<open>id\<close>, \<open>self\<close>), every keyword with a value other than \<open>None\<close> is in the body of
  the one PUT request with that value, whatever the key: \<open>business_id\<close> and \<open>created_at\<close>
  as well as the entity's mutable fields.
\<close>

theorem C9_update_passes_any_field:
  assumes "distinct (map fst kw)"
    and "''id'' \<notin> set (map fst kw)" and "''self'' \<notin> set (map fst kw)"
    and "(f, v) \<in> set kw" and "v \<noteq> PNone"
  shows "\<exists>body. sent_by (\<lambda>k. call_service_requests_update k i kw) c w =
            Inr [\<lparr>verb = PUT, path = ''/v1/service-requests/'' @ i, params = None,
                  json = Some body\<rparr>]
          \<and> (f, v) \<in> set body"
proof -
  have "sent_by (\<lambda>k. call_service_requests_update k i kw) c w =
      Inr [\<lparr>verb = PUT, path = ''/v1/service-requests/'' @ i, params = None,
            json = Some (service_requests_update_data kw)\<rparr>]"
    using assms(1-3)
    by (simp add: sent_by_def call_service_requests_update_ok service_requests_update_def
        client_put_def recording_apply)
  moreover have "(f, v) \<in> set (service_requests_update_data kw)"
    using assms(4,5) by (simp add: service_requests_update_data_def)
  ultimately show ?thesis by blast
qed

text \<open>
  C9 at a concrete call: \<open>update("sr_1", business_id="b_2", created_at="2020-01-01",
  notes=None)\<close> sends \<open>created_at\<close> with its value.
\<close>

theorem C9_update_passes_any_field_witness:
  "\<exists>body. sent_by (\<lambda>k. call_service_requests_update k ''sr_1''
                     [(''business_id'', PStr ''b_2''), (''created_at'', PStr ''2020-01-01''),
                      (''notes'', PNone)])
             (\<lambda>rq w. (Inr PNone :: unit + pyval, w)) () =
            Inr [\<lparr>verb = PUT, path = ''/v1/service-requests/sr_1'', params = None,
                  json = Some body\<rparr>]
          \<and> (''created_at'', PStr ''2020-01-01'') \<in> set body"
  using C9_update_passes_any_field
    [of "[(''business_id'', PStr ''b_2''), (''created_at'', PStr ''2020-01-01''),
          (''notes'', PNone)]" "''created_at''" "PStr ''2020-01-01''" "''sr_1''"
        "\<lambda>rq w. (Inr PNone :: unit + pyval, w)" "()"]
  by simp

text \<open>
  C9 as stated fails for the key \<open>id\<close>: it is a declared parameter of \<open>update\<close>, so it
  never reaches \<open>**kwargs\<close>. \<open>update("sr_1", id="sr_2", status="scheduled")\<close> raises
  \<open>TypeError\<close> and sends nothing; \<open>update(id="sr_1", status="scheduled")\<close> binds \<open>id\<close> to
  the path parameter and leaves \<open>kwargs\<close>, hence the body, as \<open>{"status": "scheduled"}\<close>.
\<close>

theorem C9_id_keyword_never_in_body:
  "sent_by (\<lambda>k. call_service_requests_update k ''sr_1''
              [(''id'', PStr ''sr_2''), (''status'', PStr ''scheduled'')])
     (\<lambda>rq w. (Inr PNone :: unit + pyval, w)) () = Inl TypeError
 \<and> bind_call service_requests_update_sig []
      [(''id'', PStr ''sr_1''), (''status'', PStr ''scheduled'')] =
    Inr ([(''id'', PStr ''sr_1'')], [(''status'', PStr ''scheduled'')])
 \<and> service_requests_update_data [(''status'', PStr ''scheduled'')] =
    [(''status'', PStr ''scheduled'')]"
  by (simp add: sent_by_def call_service_requests_update_def bind_call_def
      service_requests_update_sig_def service_requests_update_data_def arg_def)

section \<open>The parameters the list operations accept\<close>

text \<open>
  C4, as the code has it: \<open>service_requests.list\<close> accepts \<open>page\<close>, \<open>per_page\<close>, \<open>search\<close>,
  \<open>sort\<close>, \<open>order\<close> (and \<open>status\<close>, \<open>priority\<close>, \<open>client_id\<close>), each on its own: any
  choice of distinct keywords among them is a call that reaches the client, with the
  values given and \<open>None\<close> for the rest. \<open>webhooks.list\<close> accepts \<open>page\<close> and \<open>per_page\<close>
  only, and \<open>webhooks.list_deliveries\<close> accepts \<open>page\<close>, \<open>per_page\<close> and \<open>event_type\<close> only,
  each on its own: a call with distinct keywords reaches the client exactly when all
  of them are among these, and raises \<open>TypeError\<close> otherwise.
\<close>

theorem C4_accepted_parameters:
  "(distinct (map fst kw) \<and>
    set (map fst kw) \<subseteq> {''page'', ''per_page'', ''search'', ''sort'', ''order'', ''status'',
                           ''priority'', ''client_id''} \<longrightarrow>
    sent_by (\<lambda>k. call_service_requests_list k [] kw) c w =
      Inr [\<lparr>verb = GET, path = ''/v1/service-requests'',
            params = Some [(''page'', arg kw ''page''), (''per_page'', arg kw ''per_page''),
                           (''search'', arg kw ''search''), (''sort'', arg kw ''sort''),
                           (''order'', arg kw ''order''), (''status'', arg kw ''status''),
                           (''priority'', arg kw ''priority''),
                           (''client_id'', arg kw ''client_id'')],
            json = None\<rparr>])
 \<and> (distinct (map fst kw') \<longrightarrow>
    sent_by (\<lambda>k. call_webhooks_list k [] kw') c w =
      (if set (map fst kw') \<subseteq> {''page'', ''per_page''}
       then Inr [\<lparr>verb = GET, path = ''/v1/webhooks'',
                  params = Some [(''page'', arg kw' ''page''),
                                 (''per_page'', arg kw' ''per_page'')],
                  json = None\<rparr>]
       else Inl TypeError))
 \<and> (distinct (map fst kw'') \<longrightarrow>
    sent_by (\<lambda>k. call_webhooks_list_deliveries k i kw'') c w =
      (if set (map fst kw'') \<subseteq> {''page'', ''per_page'', ''event_type''}
       then Inr [\<lparr>verb = GET, path = ''/v1/webhooks/'' @ i @ ''/deliveries'',
                  params = Some [(''page'', arg kw'' ''page''),
                                 (''per_page'', arg kw'' ''per_page''),
                                 (''event_type'', arg kw'' ''event_type'')],
                  json = None\<rparr>]
       else Inl TypeError))"
proof (intro conjI impI)
  assume "distinct (map fst kw) \<and>
    set (map fst kw) \<subseteq> {''page'', ''per_page'', ''search'', ''sort'', ''order'', ''status'',
                           ''priority'', ''client_id''}"
  then show "sent_by (\<lambda>k. call_service_requests_list k [] kw) c w =
      Inr [\<lparr>verb = GET, path = ''/v1/service-requests'',
            params = Some [(''page'', arg kw ''page''), (''per_page'', arg kw ''per_page''),
                           (''search'', arg kw ''search''), (''sort'', arg kw ''sort''),
                           (''order'', arg kw ''order''), (''status'', arg kw ''status''),
                           (''priority'', arg kw ''priority''),
                           (''client_id'', arg kw ''client_id'')],
            json = None\<rparr>]"
    by (simp add: sent_by_def call_service_requests_list_ok service_requests_list_def
        service_requests_list_params_def client_get_def recording_apply)
next
  assume d: "distinct (map fst kw')"
  show "sent_by (\<lambda>k. call_webhooks_list k [] kw') c w =
      (if set (map fst kw') \<subseteq> {''page'', ''per_page''}
       then Inr [\<lparr>verb = GET, path = ''/v1/webhooks'',
                  params = Some [(''page'', arg kw' ''page''),
                                 (''per_page'', arg kw' ''per_page'')],
                  json = None\<rparr>]
       else Inl TypeError)"
  proof (cases "set (map fst kw') \<subseteq> {''page'', ''per_page''}")
    case True
    then show ?thesis
      using d
      by (simp add: sent_by_def call_webhooks_list_ok webhooks_list_def webhooks_list_params_def
          client_get_def recording_apply)
  next
    case False
    then show ?thesis
      by (simp add: sent_by_def call_webhooks_list_bad)
  qed
next
  assume d: "distinct (map fst kw'')"
  show "sent_by (\<lambda>k. call_webhooks_list_deliveries k i kw'') c w =
      (if set (map fst kw'') \<subseteq> {''page'', ''per_page'', ''event_type''}
       then Inr [\<lparr>verb = GET, path = ''/v1/webhooks/'' @ i @ ''/deliveries'',
                  params = Some [(''page'', arg kw'' ''page''),
                                 (''per_page'', arg kw'' ''per_page''),
                                 (''event_type'', arg kw'' ''event_type'')],
                  json = None\<rparr>]
       else Inl TypeError)"
  proof (cases "set (map fst kw'') \<subseteq> {''page'', ''per_page'', ''event_type''}")
    case True
    then show ?thesis
      using d
      by (simp add: sent_by_def call_webhooks_list_deliveries_ok webhooks_list_deliveries_def
          webhooks_list_deliveries_params_def client_get_def recording_apply)
  next
    case False
    then show ?thesis
      by (simp add: sent_by_def call_webhooks_list_deliveries_bad)
  qed
qed

text \<open>
  C4 at concrete calls: \<open>service_requests.list(search="ac", order="desc")\<close> and
  \<open>webhooks.list(per_page=50)\<close> reach the client;
  \<open>webhooks.list_deliveries("wh_1", sort="created_at")\<close> raises \<open>TypeError\<close>.
\<close>

theorem C4_accepted_parameters_witness:
  "sent_by (\<lambda>k. call_service_requests_list k [] [(''search'', PStr ''ac''), (''order'', PStr ''desc'')])
      (\<lambda>rq w. (Inr PNone :: unit + pyval, w)) () =
      Inr [\<lparr>verb = GET, path = ''/v1/service-requests'',
            params = Some [(''page'', PNone), (''per_page'', PNone),
                           (''search'', PStr ''ac''), (''sort'', PNone),
                           (''order'', PStr ''desc''), (''status'', PNone),
                           (''priority'', PNone), (''client_id'', PNone)],
            json = None\<rparr>]
 \<and> sent_by (\<lambda>k. call_webhooks_list k [] [(''per_page'', PInt 50)])
      (\<lambda>rq w. (Inr PNone :: unit + pyval, w)) () =
      Inr [\<lparr>verb = GET, path = ''/v1/webhooks'',
            params = Some [(''page'', PNone), (''per_page'', PInt 50)], json = None\<rparr>]
 \<and> sent_by (\<lambda>k. call_webhooks_list_deliveries k ''wh_1'' [(''sort'', PStr ''created_at'')])
      (\<lambda>rq w. (Inr PNone :: unit + pyval, w)) () = Inl TypeError"
  using C4_accepted_parameters
    [of "[(''search'', PStr ''ac''), (''order'', PStr ''desc'')]"
        "\<lambda>rq w. (Inr PNone :: unit + pyval, w)" "()"
        "[(''per_page'', PInt 50)]" "[(''sort'', PStr ''created_at'')]" "''wh_1''"]
  by (simp add: arg_def)

text \<open>
  C4 as stated fails: \<open>webhooks.list\<close> accepts neither \<open>search\<close> nor \<open>sort\<close>, and
  \<open>webhooks.list_deliveries\<close> does not accept \<open>order\<close>; each of these calls raises
  \<open>TypeError\<close> before anything is sent.
\<close>

theorem C4_webhooks_list_rejects_search:
  "sent_by (\<lambda>k. call_webhooks_list k [] [(''search'', PStr ''invoice'')])
      (\<lambda>rq w. (Inr PNone :: unit + pyval, w)) () = Inl TypeError
 \<and> sent_by (\<lambda>k. call_webhooks_list k [] [(''sort'', PStr ''name'')])
      (\<lambda>rq w. (Inr PNone :: unit + pyval, w)) () = Inl TypeError
 \<and> sent_by (\<lambda>k. call_webhooks_list_deliveries k ''wh_1'' [(''order'', PStr ''asc'')])
      (\<lambda>rq w. (Inr PNone :: unit + pyval, w)) () = Inl TypeError"
  by (simp add: sent_by_def call_webhooks_list_def call_webhooks_list_deliveries_def
      bind_call_def webhooks_list_sig_def webhooks_list_deliveries_sig_def)

section \<open>The secret of a webhook\<close>




end
